theory Spec2Isabelle
  imports Main
begin

section \<open>Coverage of notebook kernels: the module \<open>nbval/cover.py\<close>\<close>

text \<open>
  The module starts a coverage recorder inside a notebook kernel (\<open>setup_coverage\<close>),
  stops it (\<open>teardown_coverage\<close>) and merges the data file the kernel wrote into the
  recorder of pytest-cov that runs in the test process (\<open>_merge_nbval_coverage_data\<close>).
  The functions below follow the Python source line by line. Objects that the source
  mutates (the recorder of pytest-cov, the file system, the kernel's request queue, the
  warnings of the configuration) live in an explicit \<open>world\<close> that every operation takes
  and returns; an exception is an outcome \<open>Raised e\<close> together with the world as it
  was when the exception left the function.
\<close>

subsection \<open>Values and objects\<close>

text \<open>
  The attribute \<open>data_suffix\<close> of a coverage recorder is \<open>None\<close>, \<open>True\<close> or a
  string; \<open>_make_suffix\<close> returns \<open>True\<close> or a string. Both are Python values of
  this small universe.
\<close>

datatype pyval = PNone | PTrue | PStr string

datatype error =
    CoverageException
  | IndexError
  | TypeError
  | AttributeError
  | PluginLookupError
  | KernelTimeout

datatype outcome = Returned | Raised error

text \<open>
  The recorder of pytest-cov, a \<open>coverage.Coverage\<close> object, with the attributes the
  module reads or writes: \<open>cov.config.data_file\<close>, \<open>cov.config.paths\<close> (a dict from a
  name to a list of paths, kept in iteration order), \<open>cov.data_suffix\<close>,
  \<open>cov.data_files.filename\<close>, \<open>cov.debug\<close>, the live dataset \<open>cov.data\<close> and the flag
  \<open>cov._warn_no_data\<close>. The dataset type \<open>'d\<close> belongs to coverage.py and is left open.
\<close>

record 'd recorder =
  config_data_file :: string
  config_paths :: "(string \<times> string list) list"
  data_suffix :: pyval
  data_files_filename :: string
  debug :: bool
  data :: 'd
  warn_no_data :: bool

text \<open>
  Recorders are objects with identity: the plugin of pytest-cov and this module hold
  references to the same recorder. A reference is an address into the store
  \<open>recorders\<close> of the world; \<open>None\<close> is Python's \<open>None\<close>.
\<close>

type_synonym ref = nat

record controller =
  cov :: "ref option"

record plugin =
  cov_controller :: "controller option"

text \<open>
  The pytest configuration: the plugin manager (a table from plugin names to plugins)
  and the two command line options of pytest-cov the module reads.
\<close>

record config =
  pluginmanager :: "string \<Rightarrow> plugin option"
  option_cov_source :: "string list"
  option_cov_config :: string

text \<open>
  A file either holds coverage data that \<open>CoverageData.read_file\<close> can read, or
  anything else.
\<close>

datatype 'd disk_file = CoverageFile 'd | Corrupt

type_synonym 'd filesys = "string \<Rightarrow> 'd disk_file option"

text \<open>
  The code sent to the kernel is one of the two templates of the module. The setup
  template has four \<open>%r\<close> holes, filled with the data file, the source filter, the
  configuration file and the suffix; a command keeps the template and its arguments
  apart instead of the formatted text.
\<close>

datatype kernel_cmd =
    PythonSetup string "string list" string pyval
  | PythonTeardown

text \<open>
  The kernel: its language, whether a request reaches the idle state within a timeout
  (\<open>await_idle\<close> raises otherwise), and what running a command in the kernel process
  does to the files on disk.
\<close>

record 'd kernel =
  language :: string
  idle_within :: "nat \<Rightarrow> nat \<Rightarrow> bool"
  remote_run :: "kernel_cmd \<Rightarrow> 'd filesys \<Rightarrow> 'd filesys"

text \<open>
  The libraries the module imports. From \<open>os\<close>: the current directory,
  \<open>os.path.abspath\<close> and \<open>os.path.join\<close>. From \<open>coverage\<close>:
  \<open>CoverageData.update(other, aliases)\<close>, where the alias table is the list of
  \<open>(pattern, result)\<close> pairs given to \<open>PathAliases.add\<close>, in order. Files on disk are
  keyed by absolute path, and an operation of the operating system on a path acts on
  the file at the absolute form of that path.
\<close>

type_synonym aliases = "(string \<times> string) list"

record 'd env =
  getcwd :: string
  abspath :: "string \<Rightarrow> string"
  path_join :: "string \<Rightarrow> string \<Rightarrow> string"
  update_data :: "'d \<Rightarrow> 'd \<Rightarrow> aliases option \<Rightarrow> 'd"

text \<open>
  Everything the module can change or observe: the recorder objects, the files, the
  paths given to \<open>read_file\<close> and to \<open>file_be_gone\<close> so far, the warnings given to
  \<open>config.warn\<close> (category, message, location), and the requests submitted to
  \<open>kernel.kc.execute\<close> with the \<open>stop_on_error\<close> argument when one was passed.
\<close>

record 'd world =
  recorders :: "ref \<Rightarrow> 'd recorder"
  fs :: "'d filesys"
  read_log :: "string list"
  remove_log :: "string list"
  warnings :: "(string \<times> string \<times> string) list"
  executed :: "(kernel_cmd \<times> bool option) list"

subsection \<open>Collaborators\<close>

text \<open>\<open>str.startswith\<close>.\<close>

definition startswith :: "string \<Rightarrow> string \<Rightarrow> bool" where
  "startswith s p = (take (length p) s = p)"

text \<open>
  \<open>pluginmanager.hasplugin\<close> and \<open>pluginmanager.getplugin\<close>; the latter raises in
  older versions of pytest when no plugin has the name.
\<close>

definition hasplugin :: "(string \<Rightarrow> plugin option) \<Rightarrow> string \<Rightarrow> bool" where
  "hasplugin pm name = (pm name \<noteq> None)"

definition getplugin :: "(string \<Rightarrow> plugin option) \<Rightarrow> string \<Rightarrow> error + plugin" where
  "getplugin pm name = (case pm name of None \<Rightarrow> Inl PluginLookupError | Some p \<Rightarrow> Inr p)"

text \<open>\<open>config.warn(code, message, fslocation)\<close>.\<close>

definition warn :: "string \<Rightarrow> string \<Rightarrow> string \<Rightarrow> 'd world \<Rightarrow> 'd world" where
  "warn code message floc w = w\<lparr>warnings := warnings w @ [(code, message, floc)]\<rparr>"

text \<open>
  \<open>kernel.kc.execute(cmd, ...)\<close> submits the code and returns the identifier of the
  request, here its position in the queue; the kernel process then runs it.
\<close>

definition kc_execute ::
  "'d kernel \<Rightarrow> kernel_cmd \<Rightarrow> bool option \<Rightarrow> 'd world \<Rightarrow> nat \<times> 'd world" where
  "kc_execute k cmd stop_on_error w =
     (length (executed w),
      w\<lparr>executed := executed w @ [(cmd, stop_on_error)],
        fs := remote_run k cmd (fs w)\<rparr>)"

text \<open>\<open>kernel.await_idle(msg_id, timeout)\<close>.\<close>

definition await_idle :: "'d kernel \<Rightarrow> nat \<Rightarrow> nat \<Rightarrow> 'd world \<Rightarrow> outcome \<times> 'd world" where
  "await_idle k msg_id timeout w =
     (if idle_within k msg_id timeout then (Returned, w) else (Raised KernelTimeout, w))"

text \<open>
  The file the operating system finds at a path, if any; and
  \<open>CoverageData.read_file(filename)\<close> on a fresh dataset: the data of the file, or
  \<open>CoverageException\<close> when the file is missing or cannot be parsed. The \<open>debug\<close>
  argument of the dataset only selects diagnostic output and is not passed on.
\<close>

definition file_at :: "'d env \<Rightarrow> 'd world \<Rightarrow> string \<Rightarrow> 'd disk_file option" where
  "file_at e w path = fs w (abspath e path)"

definition read_file :: "'d env \<Rightarrow> string \<Rightarrow> 'd world \<Rightarrow> (error + 'd) \<times> 'd world" where
  "read_file e filename w =
     (case file_at e w filename of
        Some (CoverageFile d) \<Rightarrow> Inr d
      | Some Corrupt \<Rightarrow> Inl CoverageException
      | None \<Rightarrow> Inl CoverageException,
      w\<lparr>read_log := read_log w @ [filename]\<rparr>)"

text \<open>\<open>coverage.misc.file_be_gone(path)\<close>: remove the file, and accept that there is none.\<close>

definition file_be_gone :: "'d env \<Rightarrow> string \<Rightarrow> 'd world \<Rightarrow> 'd world" where
  "file_be_gone e path w =
     w\<lparr>fs := (fs w)(abspath e path := None), remove_log := remove_log w @ [path]\<rparr>"

subsection \<open>\<open>get_cov\<close>\<close>

text \<open>
  \<^verbatim>\<open>
  if config.pluginmanager.hasplugin('_cov'):
      plugin = config.pluginmanager.getplugin('_cov')
      if plugin.cov_controller:
          return plugin.cov_controller.cov
  return None
  \<close>
\<close>

definition get_cov :: "config \<Rightarrow> error + ref option" where
  "get_cov cfg =
     (if hasplugin (pluginmanager cfg) ''_cov'' then
        (case getplugin (pluginmanager cfg) ''_cov'' of
           Inl e \<Rightarrow> Inl e
         | Inr p \<Rightarrow>
             (case cov_controller p of
                Some ctl \<Rightarrow> Inr (cov ctl)
              | None \<Rightarrow> Inr None))
      else Inr None)"

subsection \<open>\<open>_make_suffix\<close>\<close>

text \<open>
  \<^verbatim>\<open>
  if cov and cov.data_suffix is not None:
      if cov.data_suffix is True:
          return True
      return cov.data_suffix + '.nbval'
  return 'nbval'
  \<close>
  A recorder object is always truthy, so \<open>cov\<close> is false exactly for \<open>None\<close>.
\<close>

definition make_suffix :: "'d world \<Rightarrow> ref option \<Rightarrow> pyval" where
  "make_suffix w c =
     (case c of
        Some a \<Rightarrow>
          (case data_suffix (recorders w a) of
             PNone \<Rightarrow> PStr ''nbval''
           | PTrue \<Rightarrow> PTrue
           | PStr s \<Rightarrow> PStr (s @ ''.nbval''))
      | None \<Rightarrow> PStr ''nbval'')"

subsection \<open>\<open>_merge_nbval_coverage_data\<close>\<close>

text \<open>
  The alias table:
  \<^verbatim>\<open>
  aliases = None
  if cov.config.paths:
      aliases = coverage.files.PathAliases()
      for paths in cov.config.paths.values():
          result = paths[0]
          for pattern in paths[1:]:
              aliases.add(pattern, result)
  \<close>
  \<open>paths[0]\<close> raises \<open>IndexError\<close> on an empty list.
\<close>

fun add_aliases :: "string list list \<Rightarrow> aliases \<Rightarrow> error + aliases" where
  "add_aliases [] al = Inr al"
| "add_aliases (paths # rest) al =
     (case paths of
        [] \<Rightarrow> Inl IndexError
      | result # patterns \<Rightarrow>
          add_aliases rest (al @ map (\<lambda>pattern. (pattern, result)) patterns))"

definition make_aliases :: "(string \<times> string list) list \<Rightarrow> error + aliases option" where
  "make_aliases paths =
     (if paths \<noteq> [] then
        (case add_aliases (map snd paths) [] of
           Inl e \<Rightarrow> Inl e
         | Inr al \<Rightarrow> Inr (Some al))
      else Inr None)"

text \<open>
  \<^verbatim>\<open>
  if not cov:
      return
  suffix = _make_suffix(cov)
  if suffix is True:
      return
  filename = cov.data_files.filename + '.' + suffix
  nbval_data = coverage.CoverageData(debug=cov.debug)
  try:
      nbval_data.read_file(os.path.abspath(filename))
  except coverage.CoverageException:
      return
  aliases = ...
  cov.data.update(nbval_data, aliases=aliases)
  coverage.misc.file_be_gone(filename)
  \<close>
\<close>

definition merge_nbval_coverage_data ::
  "'d env \<Rightarrow> ref option \<Rightarrow> 'd world \<Rightarrow> outcome \<times> 'd world" where
  "merge_nbval_coverage_data e c w =
     (case c of
        None \<Rightarrow> (Returned, w)
      | Some a \<Rightarrow>
          (case make_suffix w c of
             PTrue \<Rightarrow> (Returned, w)
           | PNone \<Rightarrow> (Raised TypeError, w)
           | PStr suffix \<Rightarrow>
               (let filename = data_files_filename (recorders w a) @ ''.'' @ suffix in
                case read_file e (abspath e filename) w of
                  (Inl err, w1) \<Rightarrow>
                    (if err = CoverageException then (Returned, w1) else (Raised err, w1))
                | (Inr nbval_data, w1) \<Rightarrow>
                    (case make_aliases (config_paths (recorders w1 a)) of
                       Inl err \<Rightarrow> (Raised err, w1)
                     | Inr al \<Rightarrow>
                         (let r = recorders w1 a;
                              w2 = w1\<lparr>recorders := (recorders w1)
                                      (a := r\<lparr>data := update_data e (data r) nbval_data al\<rparr>)\<rparr>
                          in (Returned, file_be_gone e filename w2))))))"

subsection \<open>\<open>setup_coverage\<close> and \<open>teardown_coverage\<close>\<close>

text \<open>The message of the warning: \<open>'Coverage currently not supported for language "%s".' % language\<close>.\<close>

definition unsupported_message :: "string \<Rightarrow> string" where
  "unsupported_message lang =
     ''Coverage currently not supported for language '' @ [CHR 0x22] @ lang @ [CHR 0x22] @ ''.''"

text \<open>\<open>output_loc or os.getcwd()\<close>: \<open>None\<close> and the empty string are both false.\<close>

definition output_loc_or_cwd :: "'d env \<Rightarrow> string option \<Rightarrow> string" where
  "output_loc_or_cwd e output_loc =
     (case output_loc of
        None \<Rightarrow> getcwd e
      | Some s \<Rightarrow> (if s = [] then getcwd e else s))"

text \<open>
  \<^verbatim>\<open>
  language = kernel.language
  if language.startswith('python'):
      cov = get_cov(config)
      if cov:
          data_file = os.path.abspath(cov.config.data_file)
      else:
          data_file = os.path.abspath(os.path.join(output_loc or os.getcwd(), '.coverage'))
      source = config.option.cov_source
      config_file = config.option.cov_config
      suffix = _make_suffix(cov)
      if suffix is True:
          cov._warn_no_data = False
      cmd = _python_setup % (data_file, source, config_file, suffix)
      msg_id = kernel.kc.execute(cmd, stop_on_error=False)
      kernel.await_idle(msg_id, 60)
  else:
      config.warn('C1', 'Coverage currently not supported for language "%s".' % language, floc)
      return
  \<close>
\<close>

definition setup_coverage ::
  "'d env \<Rightarrow> config \<Rightarrow> 'd kernel \<Rightarrow> string \<Rightarrow> string option \<Rightarrow> 'd world \<Rightarrow> outcome \<times> 'd world" where
  "setup_coverage e cfg k floc output_loc w =
     (if startswith (language k) ''python'' then
        (case get_cov cfg of
           Inl err \<Rightarrow> (Raised err, w)
         | Inr c \<Rightarrow>
             (let data_file =
                    (case c of
                       Some a \<Rightarrow> abspath e (config_data_file (recorders w a))
                     | None \<Rightarrow>
                         abspath e (path_join e (output_loc_or_cwd e output_loc) ''.coverage''));
                  source = option_cov_source cfg;
                  config_file = option_cov_config cfg;
                  suffix = make_suffix w c
              in
                (case (if suffix = PTrue then
                         (case c of
                            Some a \<Rightarrow>
                              Inr (w\<lparr>recorders := (recorders w)
                                       (a := (recorders w a)\<lparr>warn_no_data := False\<rparr>)\<rparr>)
                          | None \<Rightarrow> Inl AttributeError)
                       else Inr w) of
                   Inl err \<Rightarrow> (Raised err, w)
                 | Inr w1 \<Rightarrow>
                     (let cmd = PythonSetup data_file source config_file suffix;
                          (msg_id, w2) = kc_execute k cmd (Some False) w1
                      in await_idle k msg_id 60 w2))))
      else (Returned, warn ''C1'' (unsupported_message (language k)) floc w))"

text \<open>
  \<^verbatim>\<open>
  language = kernel.language
  if language.startswith('python'):
      msg_id = kernel.kc.execute(_python_teardown)
      kernel.await_idle(msg_id, 60)
      cov = get_cov(config)
      _merge_nbval_coverage_data(cov)
  else:
      pass
  \<close>
\<close>

definition teardown_coverage ::
  "'d env \<Rightarrow> config \<Rightarrow> 'd kernel \<Rightarrow> string option \<Rightarrow> 'd world \<Rightarrow> outcome \<times> 'd world" where
  "teardown_coverage e cfg k output_loc w =
     (if startswith (language k) ''python'' then
        (let (msg_id, w1) = kc_execute k PythonTeardown None w in
         case await_idle k msg_id 60 w1 of
           (Raised err, w2) \<Rightarrow> (Raised err, w2)
         | (Returned, w2) \<Rightarrow>
             (case get_cov cfg of
                Inl err \<Rightarrow> (Raised err, w2)
              | Inr c \<Rightarrow> merge_nbval_coverage_data e c w2))
      else (Returned, w))"

subsection \<open>Vocabulary of the properties\<close>

text \<open>
  The name of the data file the kernel's recorder writes and the merge looks for:
  \<open>cov.data_files.filename + '.' + suffix\<close>.
\<close>

definition nbval_filename :: "'d world \<Rightarrow> ref \<Rightarrow> string \<Rightarrow> string" where
  "nbval_filename w a suffix = data_files_filename (recorders w a) @ ''.'' @ suffix"

text \<open>
  The alias table in closed form: no table when \<open>cov.config.paths\<close> is empty, and
  otherwise, rule by rule, every path after the first paired with the first.
\<close>

definition alias_table :: "(string \<times> string list) list \<Rightarrow> aliases option" where
  "alias_table paths =
     (if paths = [] then None
      else Some (concat (map (\<lambda>ps. map (\<lambda>pattern. (pattern, hd ps)) (tl ps)) (map snd paths))))"

text \<open>Every rule of \<open>cov.config.paths\<close> lists at least one path.\<close>

definition rules_nonempty :: "(string \<times> string list) list \<Rightarrow> bool" where
  "rules_nonempty paths = list_all (\<lambda>ps. ps \<noteq> []) (map snd paths)"

text \<open>
  \<open>os.path.abspath\<close> returns an absolute path, and the absolute form of an absolute
  path is the path itself.
\<close>

definition abspath_idem :: "'d env \<Rightarrow> bool" where
  "abspath_idem e = (\<forall>p. abspath e (abspath e p) = abspath e p)"

subsection \<open>A concrete test process\<close>

text \<open>
  A process running in \<open>/work\<close>, with datasets as sets of (file, line) pairs that
  \<open>update\<close> unites, a recorder at address 0 that pytest-cov registered under the name
  \<open>_cov\<close>, and kernels that answer at once and write nothing.
\<close>

type_synonym lines = "(string \<times> nat) set"

definition ex_env :: "lines env" where
  "ex_env =
     \<lparr>getcwd = ''/work'',
      abspath = (\<lambda>p. if take 1 p = ''/'' then p else ''/work/'' @ p),
      path_join = (\<lambda>p q. if take 1 q = ''/'' then q
                          else if p = [] \<or> last p = CHR ''/'' then p @ q
                          else p @ ''/'' @ q),
      update_data = (\<lambda>d other al. d \<union> other)\<rparr>"

definition ex_recorder :: "pyval \<Rightarrow> (string \<times> string list) list \<Rightarrow> lines recorder" where
  "ex_recorder sfx paths =
     \<lparr>config_data_file = ''.coverage'',
      config_paths = paths,
      data_suffix = sfx,
      data_files_filename = ''/work/.coverage'',
      debug = False,
      data = {},
      warn_no_data = True\<rparr>"

definition ex_config :: config where
  "ex_config =
     \<lparr>pluginmanager =
        (\<lambda>name. if name = ''_cov''
                 then Some \<lparr>cov_controller = Some \<lparr>cov = Some 0\<rparr>\<rparr>
                 else None),
      option_cov_source = [''pkg''],
      option_cov_config = ''.coveragerc''\<rparr>"

definition ex_config_no_plugin :: config where
  "ex_config_no_plugin =
     \<lparr>pluginmanager = (\<lambda>name. None),
      option_cov_source = [''pkg''],
      option_cov_config = ''.coveragerc''\<rparr>"

definition ex_kernel :: "string \<Rightarrow> lines kernel" where
  "ex_kernel lang =
     \<lparr>language = lang, idle_within = (\<lambda>msg_id timeout. True), remote_run = (\<lambda>cmd files. files)\<rparr>"

definition ex_world :: "lines recorder \<Rightarrow> lines filesys \<Rightarrow> lines world" where
  "ex_world r files =
     \<lparr>recorders = (\<lambda>a. r),
      fs = files,
      read_log = [],
      remove_log = [],
      warnings = [],
      executed = []\<rparr>"

definition ex_config_no_controller :: config where
  "ex_config_no_controller =
     \<lparr>pluginmanager =
        (\<lambda>name. if name = ''_cov'' then Some \<lparr>cov_controller = None\<rparr> else None),
      option_cov_source = [''pkg''],
      option_cov_config = ''.coveragerc''\<rparr>"

text \<open>
  A disk with one data file, written by a kernel that ran line 1 of \<open>m.py\<close>, and a
  disk where that file cannot be parsed.
\<close>

definition ex_corrupt_disk :: "string \<Rightarrow> lines filesys" where
  "ex_corrupt_disk path = (\<lambda>p. if p = path then Some Corrupt else None)"

definition ex_disk :: "string \<Rightarrow> lines filesys" where
  "ex_disk path = (\<lambda>p. if p = path then Some (CoverageFile {(''m.py'', 1)}) else None)"

section \<open>Auxiliary facts\<close>

text \<open>\<open>get_cov\<close> asks \<open>hasplugin\<close> first, so the lookup never raises.\<close>

lemma get_cov_returns: "\<exists>c. get_cov cfg = Inr c"
  by (simp add: get_cov_def hasplugin_def getplugin_def split: option.split)

lemma ex_get_cov: "get_cov ex_config = Inr (Some 0)"
  by (simp add: get_cov_def ex_config_def hasplugin_def getplugin_def)

lemma ex_env_abspath_idem: "abspath_idem ex_env"
  by (simp add: abspath_idem_def ex_env_def)

text \<open>When no rule is empty, the loop over the rules builds the table in closed form.\<close>

lemma add_aliases_nonempty:
  "list_all (\<lambda>ps. ps \<noteq> []) pss \<Longrightarrow>
   add_aliases pss al =
     Inr (al @ concat (map (\<lambda>ps. map (\<lambda>pattern. (pattern, hd ps)) (tl ps)) pss))"
  by (induction pss arbitrary: al) (auto split: list.splits)

lemma make_aliases_nonempty:
  "rules_nonempty paths \<Longrightarrow> make_aliases paths = Inr (alias_table paths)"
  by (simp add: make_aliases_def alias_table_def rules_nonempty_def add_aliases_nonempty)

text \<open>The suffix is a function of the attribute \<open>data_suffix\<close> alone.\<close>

lemma make_suffix_cong:
  "(\<And>b. data_suffix (recorders w' b) = data_suffix (recorders w b)) \<Longrightarrow>
   make_suffix w' c = make_suffix w c"
  by (simp add: make_suffix_def split: option.split)

text \<open>No operation of the module assigns to \<open>data_suffix\<close>.\<close>

lemma kc_execute_data_suffix:
  "data_suffix (recorders (snd (kc_execute k cmd flag w)) b) = data_suffix (recorders w b)"
  by (simp add: kc_execute_def)

lemma merge_data_suffix:
  "data_suffix (recorders (snd (merge_nbval_coverage_data e c w)) b) =
     data_suffix (recorders w b)"
  by (simp add: merge_nbval_coverage_data_def read_file_def file_be_gone_def Let_def
      split: option.split pyval.split sum.split disk_file.split)

lemma setup_data_suffix:
  "data_suffix (recorders (snd (setup_coverage e cfg k floc out w)) b) =
     data_suffix (recorders w b)"
  by (simp add: setup_coverage_def warn_def Let_def kc_execute_def await_idle_def
      split: option.split sum.split prod.split)

lemma teardown_data_suffix:
  "data_suffix (recorders (snd (teardown_coverage e cfg k out w)) b) =
     data_suffix (recorders w b)"
  by (simp add: teardown_coverage_def Let_def await_idle_def merge_data_suffix kc_execute_def
      split: option.split sum.split prod.split outcome.split)

text \<open>The three ways the merge ends for a recorder.\<close>

lemma merge_None: "merge_nbval_coverage_data e None w = (Returned, w)"
  by (simp add: merge_nbval_coverage_data_def)

lemma merge_auto:
  "data_suffix (recorders w a) = PTrue \<Longrightarrow>
   merge_nbval_coverage_data e (Some a) w = (Returned, w)"
  by (simp add: merge_nbval_coverage_data_def make_suffix_def)

lemma merge_unreadable:
  assumes "make_suffix w (Some a) = PStr sfx"
    and "file_at e w (abspath e (nbval_filename w a sfx)) = None \<or>
         file_at e w (abspath e (nbval_filename w a sfx)) = Some Corrupt"
  shows "merge_nbval_coverage_data e (Some a) w =
           (Returned, w\<lparr>read_log := read_log w @ [abspath e (nbval_filename w a sfx)]\<rparr>)"
  using assms
  by (auto simp add: merge_nbval_coverage_data_def read_file_def nbval_filename_def)

lemma merge_readable:
  assumes "make_suffix w (Some a) = PStr sfx"
    and "file_at e w (abspath e (nbval_filename w a sfx)) = Some (CoverageFile d)"
    and "rules_nonempty (config_paths (recorders w a))"
  shows "merge_nbval_coverage_data e (Some a) w =
           (Returned,
            w\<lparr>recorders := (recorders w)
                 (a := (recorders w a)
                    \<lparr>data := update_data e (data (recorders w a)) d
                               (alias_table (config_paths (recorders w a)))\<rparr>),
              fs := (fs w)(abspath e (nbval_filename w a sfx) := None),
              read_log := read_log w @ [abspath e (nbval_filename w a sfx)],
              remove_log := remove_log w @ [nbval_filename w a sfx]\<rparr>)"
  using assms
  by (simp add: merge_nbval_coverage_data_def read_file_def nbval_filename_def
      make_aliases_nonempty file_be_gone_def Let_def)

section \<open>Properties\<close>

subsection \<open>The suffix\<close>

text \<open>
  Claim C1. \<open>_make_suffix\<close> is a three-way mapping. Without a recorder, or with a
  recorder whose \<open>data_suffix\<close> is \<open>None\<close>, it returns the tag \<open>'nbval'\<close> alone; with a
  string \<open>S\<close> it returns \<open>S\<close> followed by \<open>'.nbval'\<close>; with \<open>True\<close>, the value that asks
  coverage.py to generate a suffix, it returns \<open>True\<close> unchanged.
\<close>

theorem make_suffix_three_way:
  "make_suffix w None = PStr ''nbval'' \<and>
   make_suffix w (Some a) =
     (case data_suffix (recorders w a) of
        PNone \<Rightarrow> PStr ''nbval''
      | PStr S \<Rightarrow> PStr (S @ ''.nbval'')
      | PTrue \<Rightarrow> PTrue)"
  by (simp add: make_suffix_def split: pyval.split)

text \<open>
  Claim C7. \<open>_make_suffix\<close> is deterministic. Its value for a recorder depends on
  the state of that recorder and on nothing else in the process: two worlds that agree
  on the recorder give the same suffix, and so do any two worlds when there is no
  recorder. Setup, teardown and the merge leave the suffix of every recorder as it was,
  so the suffix that the merge recomputes, after teardown has submitted its code to the
  kernel, is the one setup computed.
\<close>

theorem make_suffix_deterministic:
  "(recorders w a = recorders w' a \<longrightarrow> make_suffix w (Some a) = make_suffix w' (Some a)) \<and>
   make_suffix w None = make_suffix w' None \<and>
   make_suffix (snd (setup_coverage e cfg k floc out w)) c = make_suffix w c \<and>
   make_suffix (snd (kc_execute k PythonTeardown None (snd (setup_coverage e cfg k floc out w)))) c =
     make_suffix w c \<and>
   make_suffix (snd (teardown_coverage e cfg k out w)) c = make_suffix w c \<and>
   make_suffix (snd (merge_nbval_coverage_data e c' w)) c = make_suffix w c"
proof -
  have "recorders w a = recorders w' a \<longrightarrow> make_suffix w (Some a) = make_suffix w' (Some a)"
    by (simp add: make_suffix_def)
  moreover have "make_suffix w None = make_suffix w' None"
    by (simp add: make_suffix_def)
  moreover have "make_suffix (snd (setup_coverage e cfg k floc out w)) c = make_suffix w c"
    by (rule make_suffix_cong) (rule setup_data_suffix)
  moreover have
    "make_suffix (snd (kc_execute k PythonTeardown None (snd (setup_coverage e cfg k floc out w)))) c =
       make_suffix w c"
    by (rule make_suffix_cong) (simp add: kc_execute_data_suffix setup_data_suffix)
  moreover have "make_suffix (snd (teardown_coverage e cfg k out w)) c = make_suffix w c"
    by (rule make_suffix_cong) (rule teardown_data_suffix)
  moreover have "make_suffix (snd (merge_nbval_coverage_data e c' w)) c = make_suffix w c"
    by (rule make_suffix_cong) (rule merge_data_suffix)
  ultimately show ?thesis by blast
qed

text \<open>
  The theorem at a recorder with the suffix \<open>'w0'\<close>, in two worlds that differ in
  the files on disk, and across setup and teardown with a Python kernel.
\<close>

theorem make_suffix_deterministic_witness:
  "recorders (ex_world (ex_recorder (PStr ''w0'') []) (ex_disk ''/work/.coverage.w0.nbval'')) 0 =
     recorders (ex_world (ex_recorder (PStr ''w0'') []) (\<lambda>p. None)) 0 \<and>
   make_suffix (ex_world (ex_recorder (PStr ''w0'') []) (ex_disk ''/work/.coverage.w0.nbval''))
       (Some 0) =
     make_suffix (ex_world (ex_recorder (PStr ''w0'') []) (\<lambda>p. None)) (Some 0) \<and>
   make_suffix
       (snd (setup_coverage ex_env ex_config (ex_kernel ''python3'') ''nb.ipynb'' None
               (ex_world (ex_recorder (PStr ''w0'') []) (ex_disk ''/work/.coverage.w0.nbval''))))
       (Some 0) = PStr ''w0.nbval'' \<and>
   make_suffix
       (snd (teardown_coverage ex_env ex_config (ex_kernel ''python3'') None
               (ex_world (ex_recorder (PStr ''w0'') []) (ex_disk ''/work/.coverage.w0.nbval''))))
       (Some 0) = PStr ''w0.nbval''"
proof -
  let ?w = "ex_world (ex_recorder (PStr ''w0'') []) (ex_disk ''/work/.coverage.w0.nbval'')"
  let ?v = "ex_world (ex_recorder (PStr ''w0'') []) (\<lambda>p. None)"
  have h: "recorders ?w 0 = recorders ?v 0"
    by (simp add: ex_world_def)
  have s: "make_suffix ?w (Some 0) = PStr ''w0.nbval''"
    by (simp add: make_suffix_def ex_world_def ex_recorder_def)
  from make_suffix_deterministic [of ?w 0 ?v ex_env ex_config "ex_kernel ''python3''"
      "''nb.ipynb''" None "Some 0" "Some 0"] h s
  show ?thesis by simp
qed

text \<open>
  Claim C10. An empty string as \<open>data_suffix\<close> is a suffix, not the absence of one:
  only \<open>None\<close> is absent. \<open>_make_suffix\<close> returns \<open>'.nbval'\<close>, and the data file the
  merge reads is the base path followed by two dots and \<open>nbval\<close>.
\<close>

theorem empty_suffix_doubles_dot:
  assumes "data_suffix (recorders w a) = PStr []"
  shows "make_suffix w (Some a) = PStr ''.nbval'' \<and>
         nbval_filename w a ''.nbval'' = data_files_filename (recorders w a) @ ''..nbval'' \<and>
         read_log (snd (merge_nbval_coverage_data e (Some a) w)) =
           read_log w @ [abspath e (data_files_filename (recorders w a) @ ''..nbval'')]"
  using assms
  by (simp add: make_suffix_def nbval_filename_def merge_nbval_coverage_data_def read_file_def
      file_be_gone_def Let_def split: sum.split disk_file.split option.split)

text \<open>The theorem at a recorder whose \<open>data_suffix\<close> is the empty string.\<close>

theorem empty_suffix_doubles_dot_witness:
  "data_suffix
     (recorders (ex_world (ex_recorder (PStr []) []) (ex_disk ''/work/.coverage..nbval'')) 0) =
     PStr [] \<and>
   make_suffix (ex_world (ex_recorder (PStr []) []) (ex_disk ''/work/.coverage..nbval'')) (Some 0) =
     PStr ''.nbval'' \<and>
   read_log (snd (merge_nbval_coverage_data ex_env (Some 0)
                    (ex_world (ex_recorder (PStr []) []) (ex_disk ''/work/.coverage..nbval'')))) =
     [''/work/.coverage..nbval'']"
proof -
  let ?w = "ex_world (ex_recorder (PStr []) []) (ex_disk ''/work/.coverage..nbval'')"
  have h: "data_suffix (recorders ?w 0) = PStr []"
    by (simp add: ex_world_def ex_recorder_def)
  have v: "read_log ?w = []" "data_files_filename (recorders ?w 0) = ''/work/.coverage''"
    by (simp_all add: ex_world_def ex_recorder_def)
  have p: "abspath ex_env ''/work/.coverage..nbval'' = ''/work/.coverage..nbval''"
    by (simp add: ex_env_def)
  from empty_suffix_doubles_dot [OF h, of ex_env] h
  show ?thesis by (simp add: v p)
qed

subsection \<open>Locating the recorder and choosing the data file\<close>

text \<open>
  Claim C9. When the plugin \<open>_cov\<close> is not registered, or is registered without a
  controller, \<open>get_cov\<close> returns \<open>None\<close> and does not raise; the merge called with
  \<open>None\<close> returns at once and leaves the world as it is: no file is read, none is
  deleted, and the data file of the kernel stays on disk.
\<close>

theorem no_host_session:
  assumes "pluginmanager cfg ''_cov'' = None \<or>
           (\<exists>p. pluginmanager cfg ''_cov'' = Some p \<and> cov_controller p = None)"
  shows "get_cov cfg = Inr None \<and> merge_nbval_coverage_data e None w = (Returned, w)"
  using assms
  by (auto simp add: get_cov_def hasplugin_def getplugin_def merge_nbval_coverage_data_def)

text \<open>
  The theorem at a configuration without the plugin and at one whose plugin has no
  controller, with the kernel's data file on disk.
\<close>

theorem no_host_session_witness:
  "pluginmanager ex_config_no_plugin ''_cov'' = None \<and>
   get_cov ex_config_no_plugin = Inr None \<and>
   pluginmanager ex_config_no_controller ''_cov'' = Some \<lparr>cov_controller = None\<rparr> \<and>
   get_cov ex_config_no_controller = Inr None \<and>
   merge_nbval_coverage_data ex_env None
       (ex_world (ex_recorder PNone []) (ex_disk ''/work/.coverage.nbval'')) =
     (Returned, ex_world (ex_recorder PNone []) (ex_disk ''/work/.coverage.nbval''))"
proof -
  have h1: "pluginmanager ex_config_no_plugin ''_cov'' = None"
    by (simp add: ex_config_no_plugin_def)
  have h2: "pluginmanager ex_config_no_controller ''_cov'' = Some \<lparr>cov_controller = None\<rparr>"
    by (simp add: ex_config_no_controller_def)
  from no_host_session [of ex_config_no_plugin ex_env
         "ex_world (ex_recorder PNone []) (ex_disk ''/work/.coverage.nbval'')"]
       no_host_session [of ex_config_no_controller ex_env
         "ex_world (ex_recorder PNone []) (ex_disk ''/work/.coverage.nbval'')"]
       h1 h2
  show ?thesis by simp
qed

text \<open>
  Claim C8. At setup, for a kernel whose language starts with \<open>python\<close>, the data
  file handed to the kernel's recorder is the absolute form of the configured data file
  of the recorder of pytest-cov when there is one; otherwise it is the absolute path of
  \<open>.coverage\<close> joined to the output location, or to the current directory when no
  output location is given (\<open>None\<close>, or the empty string, which Python counts as
  false). The command submitted carries that path, the two options of pytest-cov and
  the suffix.
\<close>

theorem setup_data_file:
  assumes "startswith (language k) ''python''"
  shows "\<exists>c. get_cov cfg = Inr c \<and>
           executed (snd (setup_coverage e cfg k floc out w)) =
             executed w @
               [(PythonSetup
                   (case c of
                      Some a \<Rightarrow> abspath e (config_data_file (recorders w a))
                    | None \<Rightarrow>
                        (case out of
                           None \<Rightarrow> abspath e (path_join e (getcwd e) ''.coverage'')
                         | Some loc \<Rightarrow>
                             if loc = [] then abspath e (path_join e (getcwd e) ''.coverage'')
                             else abspath e (path_join e loc ''.coverage'')))
                   (option_cov_source cfg) (option_cov_config cfg) (make_suffix w c),
                 Some False)]"
proof -
  obtain c where c: "get_cov cfg = Inr c"
    using get_cov_returns by blast
  have "executed (snd (setup_coverage e cfg k floc out w)) =
             executed w @
               [(PythonSetup
                   (case c of
                      Some a \<Rightarrow> abspath e (config_data_file (recorders w a))
                    | None \<Rightarrow>
                        (case out of
                           None \<Rightarrow> abspath e (path_join e (getcwd e) ''.coverage'')
                         | Some loc \<Rightarrow>
                             if loc = [] then abspath e (path_join e (getcwd e) ''.coverage'')
                             else abspath e (path_join e loc ''.coverage'')))
                   (option_cov_source cfg) (option_cov_config cfg) (make_suffix w c),
                 Some False)]"
    using assms c
    by (cases c; cases out)
       (simp_all add: setup_coverage_def Let_def kc_execute_def await_idle_def
          output_loc_or_cwd_def make_suffix_def split: pyval.split)
  with c show ?thesis by blast
qed

text \<open>
  The theorem with a recorder whose data file is \<open>.coverage\<close>, and without a
  recorder, first with the output location \<open>/out\<close> and then with none.
\<close>

theorem setup_data_file_witness:
  "startswith (language (ex_kernel ''python3'')) ''python'' \<and>
   executed (snd (setup_coverage ex_env ex_config (ex_kernel ''python3'') ''nb.ipynb''
                    (Some ''/out'') (ex_world (ex_recorder PNone []) (\<lambda>p. None)))) =
     [(PythonSetup ''/work/.coverage'' [''pkg''] ''.coveragerc'' (PStr ''nbval''), Some False)] \<and>
   executed (snd (setup_coverage ex_env ex_config_no_plugin (ex_kernel ''python3'') ''nb.ipynb''
                    (Some ''/out'') (ex_world (ex_recorder PNone []) (\<lambda>p. None)))) =
     [(PythonSetup ''/out/.coverage'' [''pkg''] ''.coveragerc'' (PStr ''nbval''), Some False)] \<and>
   executed (snd (setup_coverage ex_env ex_config_no_plugin (ex_kernel ''python3'') ''nb.ipynb''
                    None (ex_world (ex_recorder PNone []) (\<lambda>p. None)))) =
     [(PythonSetup ''/work/.coverage'' [''pkg''] ''.coveragerc'' (PStr ''nbval''), Some False)]"
proof -
  let ?w = "ex_world (ex_recorder PNone []) (\<lambda>p. None)"
  have h: "startswith (language (ex_kernel ''python3'')) ''python''"
    by (simp add: startswith_def ex_kernel_def)
  have g: "get_cov ex_config_no_plugin = Inr None"
    by (simp add: get_cov_def hasplugin_def ex_config_no_plugin_def)
  have v: "executed ?w = []" "config_data_file (recorders ?w 0) = ''.coverage''"
          "make_suffix ?w (Some 0) = PStr ''nbval''" "make_suffix ?w None = PStr ''nbval''"
    by (simp_all add: ex_world_def ex_recorder_def make_suffix_def)
  have o: "option_cov_source ex_config = [''pkg'']" "option_cov_config ex_config = ''.coveragerc''"
          "option_cov_source ex_config_no_plugin = [''pkg'']"
          "option_cov_config ex_config_no_plugin = ''.coveragerc''"
    by (simp_all add: ex_config_def ex_config_no_plugin_def)
  have p: "abspath ex_env ''.coverage'' = ''/work/.coverage''"
          "abspath ex_env (path_join ex_env ''/out'' ''.coverage'') = ''/out/.coverage''"
          "abspath ex_env (path_join ex_env (getcwd ex_env) ''.coverage'') = ''/work/.coverage''"
    by (simp_all add: ex_env_def)
  from setup_data_file [OF h, of ex_config ex_env "''nb.ipynb''" "Some ''/out''" ?w]
       setup_data_file [OF h, of ex_config_no_plugin ex_env "''nb.ipynb''" "Some ''/out''" ?w]
       setup_data_file [OF h, of ex_config_no_plugin ex_env "''nb.ipynb''" None ?w]
       h
  show ?thesis
    by (simp add: ex_get_cov g v o p)
qed

subsection \<open>Kernels of other languages\<close>

text \<open>
  Claim C5. For a kernel whose language does not start with \<open>python\<close>, setup adds
  exactly one warning, with the category \<open>C1\<close>, and changes nothing else: nothing is
  submitted to the kernel. Teardown leaves the whole world as it is: nothing is
  submitted, no warning is given, and no file is read.
\<close>

theorem unsupported_language_skipped:
  assumes "\<not> startswith (language k) ''python''"
  shows "setup_coverage e cfg k floc out w =
           (Returned,
            w\<lparr>warnings := warnings w @ [(''C1'', unsupported_message (language k), floc)]\<rparr>) \<and>
         teardown_coverage e cfg k out w = (Returned, w)"
  using assms by (simp add: setup_coverage_def teardown_coverage_def warn_def)

text \<open>The theorem at a kernel of the language \<open>r\<close>.\<close>

theorem unsupported_language_skipped_witness:
  "\<not> startswith (language (ex_kernel ''r'')) ''python'' \<and>
   setup_coverage ex_env ex_config (ex_kernel ''r'') ''nb.ipynb'' None
       (ex_world (ex_recorder PNone []) (\<lambda>p. None)) =
     (Returned,
      (ex_world (ex_recorder PNone []) (\<lambda>p. None))
        \<lparr>warnings := [(''C1'', unsupported_message ''r'', ''nb.ipynb'')]\<rparr>) \<and>
   teardown_coverage ex_env ex_config (ex_kernel ''r'') None
       (ex_world (ex_recorder PNone []) (\<lambda>p. None)) =
     (Returned, ex_world (ex_recorder PNone []) (\<lambda>p. None))"
proof -
  have h: "\<not> startswith (language (ex_kernel ''r'')) ''python''"
    by (simp add: startswith_def ex_kernel_def)
  have l: "language (ex_kernel ''r'') = ''r''"
    by (simp add: ex_kernel_def)
  have g: "warnings (ex_world (ex_recorder PNone []) (\<lambda>p. None)) = []"
    by (simp add: ex_world_def)
  from unsupported_language_skipped [OF h, of ex_env ex_config "''nb.ipynb''" None
      "ex_world (ex_recorder PNone []) (\<lambda>p. None)"] h l g
  show ?thesis by simp
qed

subsection \<open>The merge\<close>

text \<open>
  Claim C4. When the data file the merge expects is missing, or is there and cannot
  be read as coverage data, the merge returns without raising. Only the attempt to
  read is recorded: the recorders, and so the dataset of the recorder of pytest-cov,
  are unchanged, and no file is deleted.
\<close>

theorem merge_missing_or_corrupt:
  assumes "make_suffix w (Some a) = PStr sfx"
    and "file_at e w (abspath e (nbval_filename w a sfx)) = None \<or>
         file_at e w (abspath e (nbval_filename w a sfx)) = Some Corrupt"
  shows "merge_nbval_coverage_data e (Some a) w =
           (Returned, w\<lparr>read_log := read_log w @ [abspath e (nbval_filename w a sfx)]\<rparr>)"
  using assms by (rule merge_unreadable)

text \<open>The theorem on an empty disk, and on a disk where the data file is corrupt.\<close>

theorem merge_missing_or_corrupt_witness:
  "make_suffix (ex_world (ex_recorder PNone []) (\<lambda>p. None)) (Some 0) = PStr ''nbval'' \<and>
   file_at ex_env (ex_world (ex_recorder PNone []) (\<lambda>p. None)) ''/work/.coverage.nbval'' = None \<and>
   merge_nbval_coverage_data ex_env (Some 0) (ex_world (ex_recorder PNone []) (\<lambda>p. None)) =
     (Returned,
      (ex_world (ex_recorder PNone []) (\<lambda>p. None))\<lparr>read_log := [''/work/.coverage.nbval'']\<rparr>) \<and>
   file_at ex_env (ex_world (ex_recorder PNone []) (ex_corrupt_disk ''/work/.coverage.nbval''))
      ''/work/.coverage.nbval'' = Some Corrupt \<and>
   merge_nbval_coverage_data ex_env (Some 0)
       (ex_world (ex_recorder PNone []) (ex_corrupt_disk ''/work/.coverage.nbval'')) =
     (Returned,
      (ex_world (ex_recorder PNone []) (ex_corrupt_disk ''/work/.coverage.nbval''))
        \<lparr>read_log := [''/work/.coverage.nbval'']\<rparr>)"
proof -
  let ?w = "ex_world (ex_recorder PNone []) (\<lambda>p. None)"
  let ?v = "ex_world (ex_recorder PNone []) (ex_corrupt_disk ''/work/.coverage.nbval'')"
  have fn: "abspath ex_env (nbval_filename ?w 0 ''nbval'') = ''/work/.coverage.nbval''"
           "abspath ex_env (nbval_filename ?v 0 ''nbval'') = ''/work/.coverage.nbval''"
    by (simp_all add: nbval_filename_def ex_env_def ex_world_def ex_recorder_def)
  have w1: "make_suffix ?w (Some 0) = PStr ''nbval''"
    by (simp add: make_suffix_def ex_world_def ex_recorder_def)
  have w2: "file_at ex_env ?w ''/work/.coverage.nbval'' = None"
    by (simp add: file_at_def ex_world_def)
  have v1: "make_suffix ?v (Some 0) = PStr ''nbval''"
    by (simp add: make_suffix_def ex_world_def ex_recorder_def)
  have v2: "file_at ex_env ?v ''/work/.coverage.nbval'' = Some Corrupt"
    by (simp add: file_at_def ex_world_def ex_env_def ex_corrupt_disk_def)
  have "merge_nbval_coverage_data ex_env (Some 0) ?w =
          (Returned, ?w\<lparr>read_log := read_log ?w @ [abspath ex_env (nbval_filename ?w 0 ''nbval'')]\<rparr>)"
    by (rule merge_missing_or_corrupt [OF w1]) (simp add: fn w2)
  moreover have "merge_nbval_coverage_data ex_env (Some 0) ?v =
          (Returned, ?v\<lparr>read_log := read_log ?v @ [abspath ex_env (nbval_filename ?v 0 ''nbval'')]\<rparr>)"
    by (rule merge_missing_or_corrupt [OF v1]) (simp add: fn v2)
  moreover have "read_log ?w = []" "read_log ?v = []"
    by (simp_all add: ex_world_def)
  ultimately show ?thesis
    using w1 w2 v2 fn by simp
qed

text \<open>
  Claim C3, amended. For a recorder whose suffix is a string and whose rules in
  \<open>cov.config.paths\<close> each list at least one path, the merge reads the file at the
  absolute form of the base data file path, a dot and the suffix; when that read
  succeeds it updates the live dataset of the recorder with the data read and the alias
  table, and then deletes the file. Nothing else changes.
\<close>

theorem merge_reads_merges_deletes:
  assumes "make_suffix w (Some a) = PStr sfx"
    and "file_at e w (abspath e (nbval_filename w a sfx)) = Some (CoverageFile d)"
    and "rules_nonempty (config_paths (recorders w a))"
  shows "merge_nbval_coverage_data e (Some a) w =
           (Returned,
            w\<lparr>recorders := (recorders w)
                 (a := (recorders w a)
                    \<lparr>data := update_data e (data (recorders w a)) d
                               (alias_table (config_paths (recorders w a)))\<rparr>),
              fs := (fs w)(abspath e (nbval_filename w a sfx) := None),
              read_log := read_log w @ [abspath e (nbval_filename w a sfx)],
              remove_log := remove_log w @ [nbval_filename w a sfx]\<rparr>)"
  using assms by (rule merge_readable)

text \<open>
  The amended theorem at a recorder with the suffix \<open>'w0'\<close> and one rule of two
  paths: line 1 of \<open>m.py\<close> arrives in the dataset and the file is gone.
\<close>

theorem merge_reads_merges_deletes_witness:
  "make_suffix (ex_world (ex_recorder (PStr ''w0'') [(''source'', [''src'', ''/kernel/src''])])
                  (ex_disk ''/work/.coverage.w0.nbval'')) (Some 0) = PStr ''w0.nbval'' \<and>
   rules_nonempty [(''source'', [''src'', ''/kernel/src''])] \<and>
   merge_nbval_coverage_data ex_env (Some 0)
       (ex_world (ex_recorder (PStr ''w0'') [(''source'', [''src'', ''/kernel/src''])])
          (ex_disk ''/work/.coverage.w0.nbval'')) =
     (Returned,
      \<lparr>recorders =
         (\<lambda>a. ex_recorder (PStr ''w0'') [(''source'', [''src'', ''/kernel/src''])])
           (0 := (ex_recorder (PStr ''w0'') [(''source'', [''src'', ''/kernel/src''])])
                   \<lparr>data := {(''m.py'', 1)}\<rparr>),
       fs = (ex_disk ''/work/.coverage.w0.nbval'')(''/work/.coverage.w0.nbval'' := None),
       read_log = [''/work/.coverage.w0.nbval''],
       remove_log = [''/work/.coverage.w0.nbval''],
       warnings = [],
       executed = []\<rparr>)"
proof -
  let ?w = "ex_world (ex_recorder (PStr ''w0'') [(''source'', [''src'', ''/kernel/src''])])
              (ex_disk ''/work/.coverage.w0.nbval'')"
  have h1: "make_suffix ?w (Some 0) = PStr ''w0.nbval''"
    by (simp add: make_suffix_def ex_world_def ex_recorder_def)
  have h2: "file_at ex_env ?w (abspath ex_env (nbval_filename ?w 0 ''w0.nbval'')) =
              Some (CoverageFile {(''m.py'', 1)})"
    by (simp add: file_at_def nbval_filename_def ex_env_def ex_world_def ex_recorder_def ex_disk_def)
  have h3: "rules_nonempty (config_paths (recorders ?w 0))"
    by (simp add: rules_nonempty_def ex_world_def ex_recorder_def)
  from merge_reads_merges_deletes [OF h1 h2 h3] h1 h3 show ?thesis
    by (simp add: nbval_filename_def ex_env_def ex_world_def ex_recorder_def rules_nonempty_def)
qed

text \<open>
  Claim C3 as stated fails for a recorder with a rule that lists no path, as
  \<open>source =\<close> with no value in the \<open>[paths]\<close> section gives: the suffix is a string
  and the read succeeds, but \<open>paths[0]\<close> raises \<open>IndexError\<close> before the update, so the
  dataset stays empty and the file stays on disk.
\<close>

theorem merge_empty_rule_counterexample:
  "make_suffix (ex_world (ex_recorder PNone [(''source'', [])]) (ex_disk ''/work/.coverage.nbval''))
      (Some 0) = PStr ''nbval'' \<and>
   file_at ex_env (ex_world (ex_recorder PNone [(''source'', [])]) (ex_disk ''/work/.coverage.nbval''))
      (abspath ex_env ''/work/.coverage.nbval'') = Some (CoverageFile {(''m.py'', 1)}) \<and>
   fst (merge_nbval_coverage_data ex_env (Some 0)
          (ex_world (ex_recorder PNone [(''source'', [])]) (ex_disk ''/work/.coverage.nbval''))) =
     Raised IndexError \<and>
   data (recorders (snd (merge_nbval_coverage_data ex_env (Some 0)
          (ex_world (ex_recorder PNone [(''source'', [])]) (ex_disk ''/work/.coverage.nbval'')))) 0) =
     {} \<and>
   fs (snd (merge_nbval_coverage_data ex_env (Some 0)
          (ex_world (ex_recorder PNone [(''source'', [])]) (ex_disk ''/work/.coverage.nbval''))))
      ''/work/.coverage.nbval'' = Some (CoverageFile {(''m.py'', 1)})"
  by (simp add: merge_nbval_coverage_data_def make_suffix_def read_file_def file_at_def
      make_aliases_def ex_world_def ex_recorder_def ex_env_def ex_disk_def Let_def)

text \<open>
  Claim C6. A second merge after a merge that returned does not raise and leaves the
  recorders, the files and the list of deleted files as the first merge left them: the
  first merge deleted the data file, so the second finds nothing to read. The absolute
  form of a path is taken to be a fixed point of \<open>os.path.abspath\<close>, so that the path the
  merge reads and the path it deletes name the same file.
\<close>

theorem merge_twice:
  assumes "abspath_idem e"
    and "merge_nbval_coverage_data e c w = (Returned, w1)"
  shows "fst (merge_nbval_coverage_data e c w1) = Returned \<and>
         recorders (snd (merge_nbval_coverage_data e c w1)) = recorders w1 \<and>
         fs (snd (merge_nbval_coverage_data e c w1)) = fs w1 \<and>
         remove_log (snd (merge_nbval_coverage_data e c w1)) = remove_log w1"
proof (cases c)
  case None
  with assms show ?thesis by (simp add: merge_None)
next
  case (Some a)
  show ?thesis
  proof (cases "make_suffix w (Some a)")
    case PNone
    with assms Some show ?thesis by (simp add: merge_nbval_coverage_data_def)
  next
    case PTrue
    with assms Some show ?thesis by (simp add: merge_nbval_coverage_data_def)
  next
    case (PStr sfx)
    let ?fn = "nbval_filename w a sfx"
    have idem: "abspath e (abspath e ?fn) = abspath e ?fn"
      using assms(1) by (simp add: abspath_idem_def)
    have sfx1: "make_suffix w1 (Some a) = PStr sfx"
      using make_suffix_cong [OF merge_data_suffix, of e c w "Some a"] assms(2) PStr by simp
    have fn1: "nbval_filename w1 a sfx = ?fn"
      using assms(2) Some PStr
      by (auto simp add: merge_nbval_coverage_data_def read_file_def file_be_gone_def Let_def
          nbval_filename_def split: sum.splits disk_file.splits option.splits if_splits)
    have gone: "file_at e w1 (abspath e ?fn) = None \<or> file_at e w1 (abspath e ?fn) = Some Corrupt"
      using assms(2) Some PStr idem
      by (auto simp add: merge_nbval_coverage_data_def read_file_def file_be_gone_def Let_def
          nbval_filename_def file_at_def split: sum.splits disk_file.splits option.splits if_splits)
    from merge_unreadable [OF sfx1] gone fn1 Some show ?thesis by simp
  qed
qed

text \<open>
  The theorem after a first merge that read line 1 of \<open>m.py\<close> and deleted the file:
  the second merge returns and the dataset still holds that line.
\<close>

theorem merge_twice_witness:
  "abspath_idem ex_env \<and>
   merge_nbval_coverage_data ex_env (Some 0)
       (ex_world (ex_recorder PNone []) (ex_disk ''/work/.coverage.nbval'')) =
     (Returned,
      \<lparr>recorders = (\<lambda>a. ex_recorder PNone [])(0 := (ex_recorder PNone [])\<lparr>data := {(''m.py'', 1)}\<rparr>),
       fs = (ex_disk ''/work/.coverage.nbval'')(''/work/.coverage.nbval'' := None),
       read_log = [''/work/.coverage.nbval''],
       remove_log = [''/work/.coverage.nbval''],
       warnings = [],
       executed = []\<rparr>) \<and>
   fst (merge_nbval_coverage_data ex_env (Some 0)
          (snd (merge_nbval_coverage_data ex_env (Some 0)
                  (ex_world (ex_recorder PNone []) (ex_disk ''/work/.coverage.nbval''))))) =
     Returned \<and>
   data (recorders
           (snd (merge_nbval_coverage_data ex_env (Some 0)
              (snd (merge_nbval_coverage_data ex_env (Some 0)
                      (ex_world (ex_recorder PNone []) (ex_disk ''/work/.coverage.nbval'')))))) 0) =
     {(''m.py'', 1)}"
proof -
  let ?w = "ex_world (ex_recorder PNone []) (ex_disk ''/work/.coverage.nbval'')"
  let ?w1 = "\<lparr>recorders = (\<lambda>a. ex_recorder PNone [])(0 := (ex_recorder PNone [])\<lparr>data := {(''m.py'', 1)}\<rparr>),
       fs = (ex_disk ''/work/.coverage.nbval'')(''/work/.coverage.nbval'' := None),
       read_log = [''/work/.coverage.nbval''],
       remove_log = [''/work/.coverage.nbval''],
       warnings = [],
       executed = []\<rparr>"
  have first: "merge_nbval_coverage_data ex_env (Some 0) ?w = (Returned, ?w1)"
    by (simp add: merge_nbval_coverage_data_def make_suffix_def read_file_def file_at_def
        make_aliases_def file_be_gone_def ex_world_def ex_recorder_def ex_env_def ex_disk_def
        Let_def)
  have d: "data (recorders ?w1 0) = {(''m.py'', 1)}"
    by simp
  from merge_twice [OF ex_env_abspath_idem first] first d ex_env_abspath_idem
  show ?thesis by simp
qed

subsection \<open>A generated suffix\<close>

text \<open>
  Claim C2, amended. When \<open>data_suffix\<close> of the recorder of pytest-cov is \<open>True\<close>
  and the language of the kernel starts with \<open>python\<close>, setup sets the recorder's
  \<open>_warn_no_data\<close> to false, whether or not the kernel then answers in time. For every
  kernel, the merge given that recorder returns at once and leaves the world as it is:
  no file is read, none is deleted, and the dataset of the recorder is untouched.
\<close>

theorem auto_suffix_left_alone:
  assumes "startswith (language k) ''python''"
    and "get_cov cfg = Inr (Some a)"
    and "data_suffix (recorders w a) = PTrue"
  shows "\<not> warn_no_data (recorders (snd (setup_coverage e cfg k floc out w)) a) \<and>
         merge_nbval_coverage_data e (Some a) w = (Returned, w)"
  using assms
  by (simp add: setup_coverage_def make_suffix_def Let_def kc_execute_def await_idle_def
      merge_auto split: prod.split)

text \<open>
  The amended theorem at a Python kernel, with a data file on disk that the merge
  leaves where it is.
\<close>

theorem auto_suffix_left_alone_witness:
  "startswith (language (ex_kernel ''python3'')) ''python'' \<and>
   get_cov ex_config = Inr (Some 0) \<and>
   data_suffix (recorders (ex_world (ex_recorder PTrue []) (ex_disk ''/work/.coverage.nbval'')) 0) =
     PTrue \<and>
   \<not> warn_no_data
       (recorders
          (snd (setup_coverage ex_env ex_config (ex_kernel ''python3'') ''nb.ipynb'' None
                  (ex_world (ex_recorder PTrue []) (ex_disk ''/work/.coverage.nbval'')))) 0) \<and>
   merge_nbval_coverage_data ex_env (Some 0)
       (ex_world (ex_recorder PTrue []) (ex_disk ''/work/.coverage.nbval'')) =
     (Returned, ex_world (ex_recorder PTrue []) (ex_disk ''/work/.coverage.nbval''))"
proof -
  have h1: "startswith (language (ex_kernel ''python3'')) ''python''"
    by (simp add: startswith_def ex_kernel_def)
  have h3: "data_suffix (recorders (ex_world (ex_recorder PTrue []) (ex_disk ''/work/.coverage.nbval'')) 0) = PTrue"
    by (simp add: ex_world_def ex_recorder_def)
  from auto_suffix_left_alone [OF h1 ex_get_cov h3] h1 h3 ex_get_cov show ?thesis
    by simp
qed

text \<open>
  Claim C2 as stated fails for a kernel of another language: with the language \<open>r\<close>
  and a recorder whose \<open>data_suffix\<close> is \<open>True\<close>, setup only warns, and the recorder's
  \<open>_warn_no_data\<close> is still true afterwards.
\<close>

theorem auto_suffix_counterexample:
  "get_cov ex_config = Inr (Some 0) \<and>
   data_suffix (recorders (ex_world (ex_recorder PTrue []) (\<lambda>p. None)) 0) = PTrue \<and>
   warn_no_data
     (recorders
        (snd (setup_coverage ex_env ex_config (ex_kernel ''r'') ''nb.ipynb'' None
                (ex_world (ex_recorder PTrue []) (\<lambda>p. None)))) 0)"
  by (simp add: ex_get_cov setup_coverage_def startswith_def ex_kernel_def ex_world_def
      ex_recorder_def warn_def)

end
